theory Spec2Isabelle
  imports Main
begin

unbundle bit_operations_syntax

section \<open>Python values\<close>

text \<open>
  The module \<^verbatim>\<open>mitmproxy/net/tls.py\<close> is modelled function by function. Python
  \<^verbatim>\<open>bytes\<close> and \<^verbatim>\<open>str\<close> are lists of characters, Python integers are
  \<open>int\<close>, \<^verbatim>\<open>None\<close> is \<open>None\<close>, and a raised exception is the left
  injection of a sum.
\<close>

type_synonym bytes = "char list"
type_synonym str = "char list"

text \<open>Modelled from the spec: \<^verbatim>\<open>mitmproxy.exceptions\<close> is not among the sources. Its two
  exceptions that the module raises or attaches are known by their names, each with its
  message; beside them stand the exceptions of the libraries that pass through the module:
  \<^verbatim>\<open>TypeError\<close> for a keyword argument given twice, \<^verbatim>\<open>SSL.Error\<close> and \<^verbatim>\<open>OSError\<close>.\<close>

datatype error =
    TlsException str
  | InvalidCertificateException str
  | TypeError
  | SSL_Error str
  | OSError str

text \<open>\<^verbatim>\<open>"{}".format(x)\<close> for an optional string: \<^verbatim>\<open>None\<close> prints as \<^verbatim>\<open>None\<close>.\<close>

definition format_opt :: "str option \<Rightarrow> str" where
  "format_opt x = (case x of None \<Rightarrow> ''None'' | Some s \<Rightarrow> s)"

text \<open>Decimal digits of a natural number, and \<^verbatim>\<open>"{}".format(n)\<close> for an integer.\<close>

definition digit_char :: "nat \<Rightarrow> char" where
  "digit_char d = ''0123456789'' ! d"

fun nat_digits :: "nat \<Rightarrow> str" where
  "nat_digits n = (if n < 10 then [digit_char n] else nat_digits (n div 10) @ [digit_char (n mod 10)])"

declare nat_digits.simps [simp del]

definition format_int :: "int \<Rightarrow> str" where
  "format_int i = (if i < 0 then CHR ''-'' # nat_digits (nat (- i)) else nat_digits (nat i))"

section \<open>The constants of the TLS engine\<close>

text \<open>
  \<^verbatim>\<open>OpenSSL.SSL\<close> is not part of the module: its constants are the fields of a record.
  \<open>OP_NO_COMPRESSION\<close> is optional, as the module asks \<^verbatim>\<open>hasattr(SSL, "OP_NO_COMPRESSION")\<close>.
\<close>

record ssl_module =
  OP_CIPHER_SERVER_PREFERENCE :: int
  OP_NO_COMPRESSION :: "int option"
  OP_NO_SSLv2 :: int
  OP_NO_SSLv3 :: int
  SSLv2_METHOD :: int
  SSLv3_METHOD :: int
  SSLv23_METHOD :: int
  TLSv1_METHOD :: int
  TLSv1_1_METHOD :: int
  TLSv1_2_METHOD :: int
  VERIFY_NONE :: int
  VERIFY_PEER :: int
  SSL_CB_HANDSHAKE_DONE :: int

section \<open>The protocol tables\<close>

definition BASIC_OPTIONS :: "ssl_module \<Rightarrow> int" where
  "BASIC_OPTIONS S =
     (case OP_NO_COMPRESSION S of
        None \<Rightarrow> OP_CIPHER_SERVER_PREFERENCE S
      | Some c \<Rightarrow> OP_CIPHER_SERVER_PREFERENCE S OR c)"

definition DEFAULT_METHOD :: "ssl_module \<Rightarrow> int" where
  "DEFAULT_METHOD S = SSLv23_METHOD S"

definition DEFAULT_OPTIONS :: "ssl_module \<Rightarrow> int" where
  "DEFAULT_OPTIONS S = OP_NO_SSLv2 S OR OP_NO_SSLv3 S OR BASIC_OPTIONS S"

text \<open>A dict literal is its items in order; a lookup takes the last item of a key, as
  Python keeps the last value written for a key.\<close>

definition dict_get :: "('k \<times> 'v) list \<Rightarrow> 'k \<Rightarrow> 'v option" where
  "dict_get items k = map_of (rev items) k"

definition VERSION_CHOICES :: "ssl_module \<Rightarrow> (str \<times> int \<times> int) list" where
  "VERSION_CHOICES S =
     [(''all'', SSLv23_METHOD S, BASIC_OPTIONS S),
      (''secure'', DEFAULT_METHOD S, DEFAULT_OPTIONS S),
      (''SSLv2'', SSLv2_METHOD S, BASIC_OPTIONS S),
      (''SSLv3'', SSLv3_METHOD S, BASIC_OPTIONS S),
      (''TLSv1'', TLSv1_METHOD S, BASIC_OPTIONS S),
      (''TLSv1_1'', TLSv1_1_METHOD S, BASIC_OPTIONS S),
      (''TLSv1_2'', TLSv1_2_METHOD S, BASIC_OPTIONS S)]"

definition METHOD_NAMES :: "ssl_module \<Rightarrow> (int \<times> str) list" where
  "METHOD_NAMES S =
     [(SSLv2_METHOD S, ''SSLv2''),
      (SSLv3_METHOD S, ''SSLv3''),
      (SSLv23_METHOD S, ''SSLv23''),
      (TLSv1_METHOD S, ''TLSv1''),
      (TLSv1_1_METHOD S, ''TLSv1.1''),
      (TLSv1_2_METHOD S, ''TLSv1.2'')]"

text \<open>An option bitmask includes the bits of \<open>b\<close> when masking with \<open>b\<close> gives \<open>b\<close> back.\<close>

definition includes_bits :: "int \<Rightarrow> int \<Rightarrow> bool" where
  "includes_bits opts b = (opts AND b = b)"

section \<open>Bytes and text\<close>

text \<open>\<^verbatim>\<open>binascii.hexlify\<close>: two lower-case hexadecimal digits for each byte.\<close>

definition hex_char :: "nat \<Rightarrow> char" where
  "hex_char d = ''0123456789abcdef'' ! d"

definition hex_byte :: "char \<Rightarrow> str" where
  "hex_byte c = [hex_char ((of_char c :: nat) div 16), hex_char ((of_char c :: nat) mod 16)]"

definition hexlify :: "bytes \<Rightarrow> bytes" where
  "hexlify b = concat (map hex_byte b)"

text \<open>\<^verbatim>\<open>b.decode("ascii", "strict")\<close>: the bytes unchanged when each is below 128; otherwise
  a \<^verbatim>\<open>UnicodeDecodeError\<close> (a \<^verbatim>\<open>ValueError\<close>), given here by its text \<^verbatim>\<open>str(e)\<close>, which
  names the first offending byte and its position.\<close>

fun first_non_ascii :: "bytes \<Rightarrow> (nat \<times> char) option" where
  "first_non_ascii [] = None"
| "first_non_ascii (c # cs) =
     (if (of_char c :: nat) < 128
      then map_option (\<lambda>(i, d). (Suc i, d)) (first_non_ascii cs)
      else Some (0, c))"

definition decode_ascii :: "bytes \<Rightarrow> str + str" where
  "decode_ascii b =
     (case first_non_ascii b of
        None \<Rightarrow> Inr b
      | Some (i, c) \<Rightarrow>
          Inl (CHR 0x27 # ''ascii'' @ CHR 0x27 # '' codec can'' @ CHR 0x27 # ''t decode byte 0x''
               @ hex_byte c @ '' in position '' @ nat_digits i @ '': ordinal not in range(128)''))"

text \<open>The list comprehension over the alternative names decodes them in order and stops
  at the first that fails.\<close>

fun decode_all :: "bytes list \<Rightarrow> str + str list" where
  "decode_all [] = Inr []"
| "decode_all (x # xs) =
     (case decode_ascii x of
        Inl e \<Rightarrow> Inl e
      | Inr s \<Rightarrow> (case decode_all xs of Inl e \<Rightarrow> Inl e | Inr ss \<Rightarrow> Inr (s # ss)))"

text \<open>Truth of an optional string or list, as \<^verbatim>\<open>if s:\<close> reads it: neither \<^verbatim>\<open>None\<close>
  nor empty.\<close>

definition truthy :: "'a list option \<Rightarrow> bool" where
  "truthy s = (case s of None \<Rightarrow> False | Some v \<Rightarrow> v \<noteq> [])"

section \<open>Objects of the collaborators\<close>

text \<open>Modelled from the spec: \<^verbatim>\<open>certs.SSLCert\<close> is not among the sources. The callback
  reads two properties of the leaf certificate it wraps: the subject alternative names, as
  byte strings, and the common name, if present.\<close>

record x509 =
  altnames :: "bytes list"
  cn :: "bytes option"

text \<open>Objects the module only hands on (a private key, Diffie-Hellman parameters, an SNI
  handler) are known by their identity.\<close>

datatype py_object = Obj nat

text \<open>The connection as the callbacks see it: the attribute \<^verbatim>\<open>cert_error\<close> the verify
  callback sets, and the two secrets the master-secret logger reads.\<close>

record connection =
  cert_error :: "error option"
  client_random :: bytes
  master_key :: bytes

text \<open>The certificate dict handed to \<^verbatim>\<open>ssl.match_hostname\<close>: the key
  \<^verbatim>\<open>subjectAltName\<close> always, the key \<^verbatim>\<open>subject\<close> only when a common name is present.\<close>

record crt =
  subjectAltName :: "(str \<times> str) list"
  subject :: "(str \<times> str) list list option"

type_synonym verify_function = "connection \<Rightarrow> x509 \<Rightarrow> int \<Rightarrow> int \<Rightarrow> bool \<Rightarrow> connection \<times> bool"

type_synonym alpn_function = "bytes list \<Rightarrow> bytes option"

text \<open>A caller's \<^verbatim>\<open>alpn_select_callback\<close> is any object; \<^verbatim>\<open>callable\<close> tells the two kinds
  apart. An ALPN function returns \<open>None\<close> where the Python raises \<^verbatim>\<open>IndexError\<close>.\<close>

datatype alpn_callback = Function alpn_function | NotCallable

section \<open>The master-secret logger\<close>

text \<open>A file object opened for appending: the bytes written and not yet flushed, and the
  bytes this handle has appended to the file.\<close>

record file_object =
  pending :: bytes
  appended :: bytes

datatype effect =
    Acquire | Release
  | Makedirs str | Open_ab str
  | Write_bytes bytes | Flush

text \<open>\<^verbatim>\<open>MasterSecretLogger\<close>: the file name, the file object once opened, and the effects
  of the logger in order, with the lock's acquisitions and releases among them.\<close>

record MasterSecretLogger =
  msl_filename :: str
  msl_f :: "file_object option"
  msl_effects :: "effect list"

section \<open>The libraries\<close>

text \<open>
  What the module calls and does not define. \<open>python\<close> holds the standard library and
  \<^verbatim>\<open>certifi\<close>: a function that can raise returns the text of the exception
  (\<open>Some\<close>, or \<open>Inl\<close>) where it raises; \<open>repr_address\<close> is \<^verbatim>\<open>repr\<close> on the peer address.
\<close>

record python =
  certifi_where :: str
  match_hostname :: "crt \<Rightarrow> str \<Rightarrow> str option"
  encode_idna :: "str \<Rightarrow> str + bytes"
  repr_address :: "str option \<Rightarrow> str"
  os_getenv :: "str \<Rightarrow> str option"
  os_path_dirname :: "str \<Rightarrow> str"
  os_path_isdir :: "str \<Rightarrow> bool"
  os_makedirs :: "str \<Rightarrow> str option"
  open_ab :: "str \<Rightarrow> str option"

text \<open>\<open>openssl\<close> holds pyOpenSSL: \<open>Context_new\<close> is false where \<^verbatim>\<open>SSL.Context(method)\<close>
  raises \<^verbatim>\<open>ValueError\<close>, \<open>load_verify_locations\<close> is false where it raises
  \<^verbatim>\<open>SSL.Error\<close>, and the other setters return the text of their \<^verbatim>\<open>SSL.Error\<close>, if any.\<close>

record openssl =
  Context_new :: "int \<Rightarrow> bool"
  load_verify_locations :: "str option \<Rightarrow> str option \<Rightarrow> bool"
  set_cipher_list :: "bytes \<Rightarrow> str option"
  use_privatekey_file :: "str \<Rightarrow> str option"
  use_certificate_file :: "str \<Rightarrow> str option"
  use_privatekey :: "py_object \<Rightarrow> str option"
  use_certificate :: "x509 \<Rightarrow> str option"
  use_certificate_chain_file :: "str \<Rightarrow> str option"
  X509_verify_cert_error_string :: "int \<Rightarrow> str"

section \<open>The context\<close>

text \<open>An \<^verbatim>\<open>SSL.Context\<close> is what its setters have stored in it.\<close>

record ssl_context =
  ctx_method :: int
  ctx_options :: "int option"
  ctx_verify :: "(int \<times> verify_function option) option"
  ctx_verify_locations :: "(str option \<times> str option) option"
  ctx_auto_retry :: bool
  ctx_cipher_list :: "bytes option"
  ctx_info_callback :: "MasterSecretLogger option"
  ctx_alpn_protos :: "bytes list option"
  ctx_alpn_select_callback :: "alpn_callback option"
  ctx_privatekey_file :: "str option"
  ctx_certificate_file :: "str option"
  ctx_privatekey :: "py_object option"
  ctx_certificate :: "x509 option"
  ctx_certificate_chain_file :: "str option"
  ctx_extra_chain_certs :: "x509 list"
  ctx_servername_callback :: "py_object option"
  ctx_tmp_dh :: "py_object option"

definition new_context :: "int \<Rightarrow> ssl_context" where
  "new_context m =
     \<lparr>ctx_method = m, ctx_options = None, ctx_verify = None, ctx_verify_locations = None,
      ctx_auto_retry = False, ctx_cipher_list = None, ctx_info_callback = None,
      ctx_alpn_protos = None, ctx_alpn_select_callback = None, ctx_privatekey_file = None,
      ctx_certificate_file = None, ctx_privatekey = None, ctx_certificate = None,
      ctx_certificate_chain_file = None, ctx_extra_chain_certs = [],
      ctx_servername_callback = None, ctx_tmp_dh = None\<rparr>"

text \<open>The keyword arguments \<^verbatim>\<open>**sslctx_kwargs\<close> the two factories pass on, each with the
  value \<^verbatim>\<open>_create_ssl_context\<close> receives for it: a keyword that is not passed has its
  default there (\<open>default_kwargs\<close>).\<close>

record sslctx_kwargs =
  kw_method :: int
  kw_options :: "int option"
  kw_ca_path :: "str option"
  kw_ca_pemfile :: "str option"
  kw_cipher_list :: "str option"
  kw_alpn_protos :: "bytes list option"
  kw_alpn_select :: "bytes option"
  kw_alpn_select_callback :: "alpn_callback option"

definition default_kwargs :: "ssl_module \<Rightarrow> sslctx_kwargs" where
  "default_kwargs S =
     \<lparr>kw_method = DEFAULT_METHOD S, kw_options = Some (DEFAULT_OPTIONS S), kw_ca_path = None,
      kw_ca_pemfile = None, kw_cipher_list = None, kw_alpn_protos = None,
      kw_alpn_select = None, kw_alpn_select_callback = None\<rparr>"

section \<open>The process-wide logger\<close>

definition new_logger :: "str \<Rightarrow> MasterSecretLogger" where
  "new_logger filename = \<lparr>msl_filename = filename, msl_f = None, msl_effects = []\<rparr>"

definition create_logfun :: "str option \<Rightarrow> MasterSecretLogger option" where
  "create_logfun filename =
     (case filename of
        None \<Rightarrow> None
      | Some name \<Rightarrow> if name = [] then None else Some (new_logger name))"

text \<open>\<^verbatim>\<open>a or b\<close> on optional strings.\<close>

definition py_or :: "'a list option \<Rightarrow> 'a list option \<Rightarrow> 'a list option" where
  "py_or a b = (if truthy a then a else b)"

definition log_master_secret :: "python \<Rightarrow> MasterSecretLogger option" where
  "log_master_secret P =
     create_logfun (py_or (os_getenv P ''MITMPROXY_SSLKEYLOGFILE'') (os_getenv P ''SSLKEYLOGFILE''))"

section \<open>\<^verbatim>\<open>MasterSecretLogger.__call__\<close>\<close>

definition log_effect :: "effect \<Rightarrow> MasterSecretLogger \<Rightarrow> MasterSecretLogger" where
  "log_effect e self = self\<lparr>msl_effects := msl_effects self @ [e]\<rparr>"

text \<open>\<^verbatim>\<open>self.f.write(b)\<close> and \<^verbatim>\<open>self.f.flush()\<close>.\<close>

definition f_write :: "bytes \<Rightarrow> MasterSecretLogger \<Rightarrow> MasterSecretLogger" where
  "f_write b self =
     log_effect (Write_bytes b)
       (self\<lparr>msl_f := map_option (\<lambda>h. h\<lparr>pending := pending h @ b\<rparr>) (msl_f self)\<rparr>)"

definition f_flush :: "MasterSecretLogger \<Rightarrow> MasterSecretLogger" where
  "f_flush self =
     log_effect Flush
       (self\<lparr>msl_f := map_option (\<lambda>h. \<lparr>pending = [], appended = appended h @ pending h\<rparr>) (msl_f self)\<rparr>)"

text \<open>The block under \<^verbatim>\<open>if not self.f:\<close>. A file object is true, so the test asks whether
  the file has been opened. The result carries the exception that left the block, if any.\<close>

definition open_logfile :: "python \<Rightarrow> MasterSecretLogger \<Rightarrow> error option \<times> MasterSecretLogger" where
  "open_logfile P self =
     (case msl_f self of
        Some h \<Rightarrow> (None, self)
      | None \<Rightarrow>
          let d = os_path_dirname P (msl_filename self);
              made = (if \<not> os_path_isdir P d then os_makedirs P d else None);
              self = (if \<not> os_path_isdir P d then log_effect (Makedirs d) self else self)
          in case made of
               Some e \<Rightarrow> (Some (OSError e), self)
             | None \<Rightarrow>
                 (case open_ab P (msl_filename self) of
                    Some e \<Rightarrow> (Some (OSError e), log_effect (Open_ab (msl_filename self)) self)
                  | None \<Rightarrow>
                      (None,
                       f_write [CHR 0x0D, CHR 0x0A]
                         (log_effect (Open_ab (msl_filename self))
                            (self\<lparr>msl_f := Some \<lparr>pending = [], appended = []\<rparr>\<rparr>)))))"

definition client_random_line :: "connection \<Rightarrow> bytes" where
  "client_random_line conn =
     ''CLIENT_RANDOM '' @ hexlify (client_random conn) @ '' '' @ hexlify (master_key conn)
       @ [CHR 0x0D, CHR 0x0A]"

text \<open>\<^verbatim>\<open>with self.lock:\<close> releases the lock also when the block raises.\<close>

definition logger_call ::
  "python \<Rightarrow> ssl_module \<Rightarrow> MasterSecretLogger \<Rightarrow> connection \<Rightarrow> int \<Rightarrow> int
     \<Rightarrow> error option \<times> MasterSecretLogger" where
  "logger_call P S self conn where' ret =
     (if where' = SSL_CB_HANDSHAKE_DONE S \<and> ret = 1 then
        (case open_logfile P (log_effect Acquire self) of
           (Some e, self) \<Rightarrow> (Some e, log_effect Release self)
         | (None, self) \<Rightarrow>
             (None, log_effect Release (f_flush (f_write (client_random_line conn) self))))
      else (None, self))"

section \<open>\<^verbatim>\<open>_create_ssl_context\<close>\<close>

text \<open>The message of the exception raised when \<^verbatim>\<open>SSL.Context(method)\<close> fails, around
  \<^verbatim>\<open>method_name\<close>.\<close>

definition unsupported_method_message :: "str \<Rightarrow> str" where
  "unsupported_method_message method_name =
     ''SSL method '' @ [CHR 0x22] @ method_name @ [CHR 0x22]
     @ '' is most likely not supported or disabled (for security reasons) in your libssl. ''
     @ ''Please refer to https://github.com/mitmproxy/mitmproxy/issues/1101 for more details.''"

text \<open>\<^verbatim>\<open>METHOD_NAMES.get(method, "unknown")\<close>.\<close>

definition method_name_of :: "ssl_module \<Rightarrow> int \<Rightarrow> str" where
  "method_name_of S m =
     (case dict_get (METHOD_NAMES S) m of None \<Rightarrow> ''unknown'' | Some method_name \<Rightarrow> method_name)"

text \<open>The trust store: the system default bundle of \<^verbatim>\<open>certifi\<close> when neither a directory
  nor a bundle file is given.\<close>

definition resolve_ca_pemfile :: "python \<Rightarrow> sslctx_kwargs \<Rightarrow> str option" where
  "resolve_ca_pemfile P kw =
     (if kw_ca_path kw = None \<and> kw_ca_pemfile kw = None
      then Some (certifi_where P) else kw_ca_pemfile kw)"

text \<open>Verify options (\<^verbatim>\<open>NONE\<close>/\<^verbatim>\<open>PEER\<close> and trusted CAs): the block under
  \<^verbatim>\<open>if verify is not None:\<close>. \<^verbatim>\<open>Context.set_verify\<close> raises \<^verbatim>\<open>TypeError\<close> for a callback
  that is not callable, and so for the default \<^verbatim>\<open>verify_callback=None\<close>; the module does not
  catch it.\<close>

definition set_verify_options ::
  "python \<Rightarrow> openssl \<Rightarrow> sslctx_kwargs \<Rightarrow> int option \<Rightarrow> verify_function option \<Rightarrow> ssl_context
     \<Rightarrow> error + ssl_context" where
  "set_verify_options P E kw verify verify_callback context =
     (case verify of
        None \<Rightarrow> Inr context
      | Some v \<Rightarrow>
          (case verify_callback of
             None \<Rightarrow> Inl TypeError
           | Some callback \<Rightarrow>
               let context = context\<lparr>ctx_verify := Some (v, Some callback)\<rparr>;
                   ca_pemfile = resolve_ca_pemfile P kw
               in if load_verify_locations E ca_pemfile (kw_ca_path kw)
                  then Inr (context\<lparr>ctx_verify_locations := Some (ca_pemfile, kw_ca_path kw)\<rparr>)
                  else Inl (TlsException
                              (''Cannot load trusted certificates ('' @ format_opt ca_pemfile
                               @ '', '' @ format_opt (kw_ca_path kw) @ '').''))))"

text \<open>Cipher list: the block under \<^verbatim>\<open>if cipher_list:\<close>.\<close>

definition set_ciphers :: "openssl \<Rightarrow> sslctx_kwargs \<Rightarrow> ssl_context \<Rightarrow> error + ssl_context" where
  "set_ciphers E kw context =
     (case kw_cipher_list kw of
        None \<Rightarrow> Inr context
      | Some cipher_list \<Rightarrow>
          if cipher_list = [] then Inr context
          else (case set_cipher_list E cipher_list of
                  Some v \<Rightarrow> Inl (TlsException (''SSL cipher specification error: '' @ v))
                | None \<Rightarrow> Inr (context\<lparr>ctx_cipher_list := Some cipher_list\<rparr>)))"

text \<open>The selector the module builds from \<^verbatim>\<open>alpn_select\<close>; \<^verbatim>\<open>options[0]\<close> of an empty
  offer raises.\<close>

definition alpn_select_function :: "bytes \<Rightarrow> alpn_function" where
  "alpn_select_function alpn_select offered =
     (if alpn_select \<in> set offered then Some alpn_select
      else (case offered of [] \<Rightarrow> None | first # _ \<Rightarrow> Some first))"

text \<open>The ALPN chain of \<^verbatim>\<open>if\<close>/\<^verbatim>\<open>elif\<close>, in its order.\<close>

definition set_alpn :: "sslctx_kwargs \<Rightarrow> ssl_context \<Rightarrow> error + ssl_context" where
  "set_alpn kw context =
     (case kw_alpn_protos kw of
        Some protos \<Rightarrow> Inr (context\<lparr>ctx_alpn_protos := Some protos\<rparr>)
      | None \<Rightarrow>
          (case (kw_alpn_select kw, kw_alpn_select_callback kw) of
             (Some alpn_select, None) \<Rightarrow>
               Inr (context\<lparr>ctx_alpn_select_callback :=
                              Some (Function (alpn_select_function alpn_select))\<rparr>)
           | (None, Some NotCallable) \<Rightarrow>
               Inl (TlsException ''ALPN error: alpn_select_callback must be a function.'')
           | (None, Some (Function g)) \<Rightarrow>
               Inr (context\<lparr>ctx_alpn_select_callback := Some (Function g)\<rparr>)
           | (Some alpn_select, Some cb) \<Rightarrow>
               Inl (TlsException
                      ''ALPN error: only define alpn_select (string) OR alpn_select_callback (function).'')
           | (None, None) \<Rightarrow> Inr context))"

definition create_ssl_context ::
  "python \<Rightarrow> openssl \<Rightarrow> ssl_module \<Rightarrow> sslctx_kwargs \<Rightarrow> int option \<Rightarrow> verify_function option
     \<Rightarrow> error + ssl_context" where
  "create_ssl_context P E S kw verify verify_callback =
     (if \<not> Context_new E (kw_method kw) then Inl (TlsException (unsupported_method_message (method_name_of S (kw_method kw))))
      else
        let context = new_context (kw_method kw);
            context = (case kw_options kw of
                         None \<Rightarrow> context
                       | Some opts \<Rightarrow> context\<lparr>ctx_options := Some opts\<rparr>)
        in case set_verify_options P E kw verify verify_callback context of
             Inl e \<Rightarrow> Inl e
           | Inr context \<Rightarrow>
               (case set_ciphers E kw (context\<lparr>ctx_auto_retry := True\<rparr>) of
                  Inl e \<Rightarrow> Inl e
                | Inr context \<Rightarrow>
                    set_alpn kw
                      (case log_master_secret P of
                         None \<Rightarrow> context
                       | Some logger \<Rightarrow> context\<lparr>ctx_info_callback := Some logger\<rparr>)))"

section \<open>\<^verbatim>\<open>create_client_context\<close>\<close>

text \<open>The try block of the verify callback, in three steps. First the certificate dict:
  every alternative name decoded as ASCII, then the common name when it is present and
  not empty.\<close>

definition leaf_crt :: "x509 \<Rightarrow> str + crt" where
  "leaf_crt cert =
     (case decode_all (altnames cert) of
        Inl e \<Rightarrow> Inl e
      | Inr names \<Rightarrow>
          let crt = \<lparr>subjectAltName = map (Pair ''DNS'') names, subject = None\<rparr>
          in case cn cert of
               None \<Rightarrow> Inr crt
             | Some c \<Rightarrow>
                 if c = [] then Inr crt
                 else (case decode_ascii c of
                         Inl e \<Rightarrow> Inl e
                       | Inr name \<Rightarrow> Inr (crt\<lparr>subject := Some [[(''commonName'', name)]]\<rparr>)))"

text \<open>Then the host name: the SNI value through the \<^verbatim>\<open>idna\<close> codec and back to text, or
  the placeholder when \<^verbatim>\<open>sni\<close> is \<^verbatim>\<open>None\<close> or empty.\<close>

definition sni_hostname :: "python \<Rightarrow> str option \<Rightarrow> str + str" where
  "sni_hostname P sni =
     (case sni of
        None \<Rightarrow> Inr ''no-hostname''
      | Some s \<Rightarrow>
          if s = [] then Inr ''no-hostname''
          else (case encode_idna P s of Inl e \<Rightarrow> Inl e | Inr b \<Rightarrow> decode_ascii b))"

text \<open>Then \<^verbatim>\<open>match_hostname\<close>. The result is the text of the \<^verbatim>\<open>ValueError\<close> or
  \<^verbatim>\<open>CertificateError\<close> the \<^verbatim>\<open>except\<close> clause catches, if any.\<close>

definition check_hostname :: "python \<Rightarrow> str option \<Rightarrow> x509 \<Rightarrow> str option" where
  "check_hostname P sni cert =
     (case leaf_crt cert of
        Inl e \<Rightarrow> Some e
      | Inr crt \<Rightarrow>
          (case sni_hostname P sni of
             Inl e \<Rightarrow> Some e
           | Inr hostname \<Rightarrow> match_hostname P crt hostname))"

text \<open>\<^verbatim>\<open>sni or repr(address)\<close>.\<close>

definition sni_or_address :: "python \<Rightarrow> str option \<Rightarrow> str option \<Rightarrow> str" where
  "sni_or_address P sni address =
     (case sni of
        None \<Rightarrow> repr_address P address
      | Some s \<Rightarrow> if s = [] then repr_address P address else s)"

text \<open>The callback closes over \<^verbatim>\<open>sni\<close> and \<^verbatim>\<open>address\<close>; it returns the connection, with
  the error it may have attached, and its verdict.\<close>

definition verify_callback ::
  "python \<Rightarrow> openssl \<Rightarrow> str option \<Rightarrow> str option \<Rightarrow> verify_function" where
  "verify_callback P E sni address conn cert errno depth is_cert_verified =
     (if is_cert_verified \<and> depth = 0 then
        (case check_hostname P sni cert of
           Some e \<Rightarrow>
             (conn\<lparr>cert_error := Some (InvalidCertificateException
                 (''Certificate verification error for '' @ sni_or_address P sni address
                  @ '': '' @ e))\<rparr>,
              False)
         | None \<Rightarrow> (conn, is_cert_verified))
      else if is_cert_verified then (conn, is_cert_verified)
      else
        (conn\<lparr>cert_error := Some (InvalidCertificateException
            (''Certificate verification error for '' @ format_opt sni @ '': ''
             @ X509_verify_cert_error_string E errno
             @ '' (errno: '' @ format_int errno @ '', depth: '' @ format_int depth @ '')''))\<rparr>,
         is_cert_verified))"

definition create_client_context ::
  "python \<Rightarrow> openssl \<Rightarrow> ssl_module \<Rightarrow> str option \<Rightarrow> str option \<Rightarrow> str option \<Rightarrow> int option
     \<Rightarrow> sslctx_kwargs \<Rightarrow> error + ssl_context" where
  "create_client_context P E S cert sni address verify kw =
     (if sni = None \<and> verify \<noteq> Some (VERIFY_NONE S)
      then Inl (TlsException ''Cannot validate certificate hostname without SNI'')
      else
        (case create_ssl_context P E S kw verify (Some (verify_callback P E sni address)) of
           Inl e \<Rightarrow> Inl e
         | Inr context \<Rightarrow>
             (case cert of
                None \<Rightarrow> Inr context
              | Some c \<Rightarrow>
                  if c = [] then Inr context
                  else (case use_privatekey_file E c of
                          Some v \<Rightarrow> Inl (TlsException (''SSL client certificate error: '' @ v))
                        | None \<Rightarrow>
                            (case use_certificate_file E c of
                               Some v \<Rightarrow> Inl (TlsException (''SSL client certificate error: '' @ v))
                             | None \<Rightarrow>
                                 Inr (context\<lparr>ctx_privatekey_file := Some c,
                                              ctx_certificate_file := Some c\<rparr>))))))"

section \<open>\<^verbatim>\<open>create_server_context\<close>\<close>

definition accept_all :: verify_function where
  "accept_all conn cert errno err_depth is_cert_verified = (conn, True)"

text \<open>\<^verbatim>\<open>cert\<close> is a \<^verbatim>\<open>certs.SSLCert\<close> or the path of a certificate chain file.\<close>

datatype server_cert = SSLCert x509 | Chain_path str

text \<open>The identity installed after the context is built; an \<^verbatim>\<open>SSL.Error\<close> of a setter is
  not caught.\<close>

definition install_identity ::
  "openssl \<Rightarrow> server_cert \<Rightarrow> py_object \<Rightarrow> ssl_context \<Rightarrow> error + ssl_context" where
  "install_identity E cert key context =
     (case use_privatekey E key of
        Some v \<Rightarrow> Inl (SSL_Error v)
      | None \<Rightarrow>
          (case cert of
             SSLCert c \<Rightarrow>
               (case use_certificate E c of
                  Some v \<Rightarrow> Inl (SSL_Error v)
                | None \<Rightarrow> Inr (context\<lparr>ctx_privatekey := Some key, ctx_certificate := Some c\<rparr>))
           | Chain_path path \<Rightarrow>
               (case use_certificate_chain_file E path of
                  Some v \<Rightarrow> Inl (SSL_Error v)
                | None \<Rightarrow>
                    Inr (context\<lparr>ctx_privatekey := Some key,
                                 ctx_certificate_chain_file := Some path\<rparr>))))"

text \<open>\<^verbatim>\<open>chain_file\<close> is passed on as \<^verbatim>\<open>ca_pemfile\<close>, so the keyword arguments cannot hold
  \<^verbatim>\<open>ca_pemfile\<close> as well: Python refuses a keyword given twice.\<close>

definition create_server_context ::
  "python \<Rightarrow> openssl \<Rightarrow> ssl_module \<Rightarrow> server_cert \<Rightarrow> py_object \<Rightarrow> py_object option \<Rightarrow> bool
     \<Rightarrow> str option \<Rightarrow> py_object option \<Rightarrow> x509 list option \<Rightarrow> sslctx_kwargs
     \<Rightarrow> error + ssl_context" where
  "create_server_context P E S cert key handle_sni request_client_cert chain_file dhparams
       extra_chain_certs kw =
     (if kw_ca_pemfile kw \<noteq> None then Inl TypeError
      else
        let verify = (if request_client_cert then VERIFY_PEER S else VERIFY_NONE S)
        in case create_ssl_context P E S (kw\<lparr>kw_ca_pemfile := chain_file\<rparr>) (Some verify)
                  (Some accept_all) of
             Inl e \<Rightarrow> Inl e
           | Inr context \<Rightarrow>
               (case install_identity E cert key context of
                  Inl e \<Rightarrow> Inl e
                | Inr context \<Rightarrow>
                    let context =
                          (case extra_chain_certs of
                             None \<Rightarrow> context
                           | Some certs \<Rightarrow> context\<lparr>ctx_extra_chain_certs := certs\<rparr>);
                        context =
                          (case handle_sni of
                             None \<Rightarrow> context
                           | Some h \<Rightarrow> context\<lparr>ctx_servername_callback := Some h\<rparr>);
                        context =
                          (case dhparams of
                             None \<Rightarrow> context
                           | Some dh \<Rightarrow> context\<lparr>ctx_tmp_dh := Some dh\<rparr>)
                    in Inr context))"

section \<open>Properties the statements use\<close>

text \<open>A byte string is ASCII when each byte is below 128.\<close>

definition is_ascii :: "bytes \<Rightarrow> bool" where
  "is_ascii b = list_all (\<lambda>c. (of_char c :: nat) < 128) b"

text \<open>A sequence of effects keeps to the lock when the lock is acquired only while free,
  released only while held, and every other effect happens while it is held. The first
  argument tells whether the lock is held at the start.\<close>

fun under_lock :: "bool \<Rightarrow> effect list \<Rightarrow> bool" where
  "under_lock held [] = (\<not> held)"
| "under_lock held (Acquire # es) = (\<not> held \<and> under_lock True es)"
| "under_lock held (Release # es) = (held \<and> under_lock False es)"
| "under_lock held (e # es) = (held \<and> under_lock held es)"

text \<open>The bytes a logger's file object has flushed to the file, and those still pending.\<close>

definition flushed_bytes :: "MasterSecretLogger \<Rightarrow> bytes" where
  "flushed_bytes self = (case msl_f self of None \<Rightarrow> [] | Some h \<Rightarrow> appended h)"

definition pending_bytes :: "MasterSecretLogger \<Rightarrow> bytes" where
  "pending_bytes self = (case msl_f self of None \<Rightarrow> [] | Some h \<Rightarrow> pending h)"

text \<open>The certificate dict the verify callback builds from a leaf certificate whose names
  are ASCII: decoding leaves such names as they are.\<close>

definition leaf_descriptor :: "x509 \<Rightarrow> crt" where
  "leaf_descriptor cert =
     \<lparr>subjectAltName = map (Pair ''DNS'') (altnames cert),
      subject = (case cn cert of
                   None \<Rightarrow> None
                 | Some c \<Rightarrow> if c = [] then None else Some [[(''commonName'', c)]])\<rparr>"

text \<open>The effects of one call of the logger that writes a record: the lock, the opening of
  the file on first use (with the directory made when it is missing), the record, the
  flush, the release.\<close>

definition call_effects :: "python \<Rightarrow> MasterSecretLogger \<Rightarrow> connection \<Rightarrow> effect list" where
  "call_effects P self conn =
     Acquire
     # (if msl_f self = None
        then (if os_path_isdir P (os_path_dirname P (msl_filename self)) then []
              else [Makedirs (os_path_dirname P (msl_filename self))])
             @ [Open_ab (msl_filename self), Write_bytes [CHR 0x0D, CHR 0x0A]]
        else [])
     @ [Write_bytes (client_random_line conn), Flush, Release]"

section \<open>Libraries to evaluate on\<close>

text \<open>The constants of pyOpenSSL on an OpenSSL 1.0 build.\<close>

definition sample_ssl :: ssl_module where
  "sample_ssl =
     \<lparr>OP_CIPHER_SERVER_PREFERENCE = 0x400000, OP_NO_COMPRESSION = Some 0x20000,
      OP_NO_SSLv2 = 0x1000000, OP_NO_SSLv3 = 0x2000000,
      SSLv2_METHOD = 1, SSLv3_METHOD = 2, SSLv23_METHOD = 3, TLSv1_METHOD = 4,
      TLSv1_1_METHOD = 5, TLSv1_2_METHOD = 6,
      VERIFY_NONE = 0, VERIFY_PEER = 1, SSL_CB_HANDSHAKE_DONE = 0x20\<rparr>"

text \<open>A matcher that accepts exactly the host names listed as DNS alternative names.\<close>

definition literal_match :: "crt \<Rightarrow> str \<Rightarrow> str option" where
  "literal_match c hostname =
     (if (''DNS'', hostname) \<in> set (subjectAltName c) then None
      else Some (''hostname '' @ hostname @ '' does not match''))"

text \<open>\<^verbatim>\<open>posixpath.dirname\<close>: the path up to its last slash, without the trailing slashes
  unless it is made of slashes only.\<close>

definition posix_dirname :: "str \<Rightarrow> str" where
  "posix_dirname p =
     (let head = rev (dropWhile (\<lambda>c. c \<noteq> CHR ''/'') (rev p))
      in if head \<noteq> [] \<and> \<not> list_all (\<lambda>c. c = CHR ''/'') head
         then rev (dropWhile (\<lambda>c. c = CHR ''/'') (rev head)) else head)"

text \<open>A Python whose \<^verbatim>\<open>idna\<close> codec leaves a name as it is, with no key log configured,
  on a file system whose only directory is \<^verbatim>\<open>/tmp\<close>, where any file can be opened and any
  directory created; the empty path is no directory and cannot be created, as on every
  file system (\<^verbatim>\<open>os.makedirs("")\<close> raises \<^verbatim>\<open>FileNotFoundError\<close>).\<close>

definition sample_python :: python where
  "sample_python =
     \<lparr>certifi_where = ''/certifi/cacert.pem'',
      match_hostname = literal_match,
      encode_idna = (\<lambda>s. Inr s),
      repr_address = (\<lambda>a. case a of None \<Rightarrow> ''None'' | Some s \<Rightarrow> CHR 0x27 # s @ [CHR 0x27]),
      os_getenv = (\<lambda>name. None),
      os_path_dirname = posix_dirname,
      os_path_isdir = (\<lambda>d. d = ''/tmp''),
      os_makedirs =
        (\<lambda>d. if d = [] then Some (''[Errno 2] No such file or directory: '' @ [CHR 0x27, CHR 0x27])
             else None),
      open_ab = (\<lambda>path. None)\<rparr>"

text \<open>An engine whose build has no SSLv2 and no SSLv3, and that accepts every trust store,
  cipher list, key and certificate.\<close>

definition sample_openssl :: openssl where
  "sample_openssl =
     \<lparr>Context_new = (\<lambda>m. m \<in> set [3, 4, 5, 6]),
      load_verify_locations = (\<lambda>cafile capath. True),
      set_cipher_list = (\<lambda>c. None),
      use_privatekey_file = (\<lambda>path. None),
      use_certificate_file = (\<lambda>path. None),
      use_privatekey = (\<lambda>key. None),
      use_certificate = (\<lambda>c. None),
      use_certificate_chain_file = (\<lambda>path. None),
      X509_verify_cert_error_string =
        (\<lambda>n. if n = 18 then ''self signed certificate'' else ''certificate error'')\<rparr>"

definition sample_connection :: connection where
  "sample_connection = \<lparr>cert_error = None, client_random = [CHR 0x01, CHR 0xAB], master_key = [CHR 0xFF]\<rparr>"

definition sample_cert :: x509 where
  "sample_cert = \<lparr>altnames = [''example.com''], cn = None\<rparr>"

section \<open>The protocol-version table\<close>

lemma includes_bits_or_right: "includes_bits (a OR b) b"
  by (auto simp add: includes_bits_def bit_eq_iff bit_and_iff bit_or_iff)

lemma includes_bits_or_left: "includes_bits (b OR a) b"
  by (auto simp add: includes_bits_def bit_eq_iff bit_and_iff bit_or_iff)

lemma includes_bits_self: "includes_bits b b"
  by (simp add: includes_bits_def)

lemma includes_bits_or_mono: "includes_bits x b \<Longrightarrow> includes_bits (y OR x) b"
  by (auto simp add: includes_bits_def bit_eq_iff bit_and_iff bit_or_iff)

lemma basic_server_preference: "includes_bits (BASIC_OPTIONS S) (OP_CIPHER_SERVER_PREFERENCE S)"
  by (simp add: BASIC_OPTIONS_def includes_bits_self includes_bits_or_left split: option.split)

lemma basic_no_compression: "OP_NO_COMPRESSION S = Some c \<Longrightarrow> includes_bits (BASIC_OPTIONS S) c"
  by (simp add: BASIC_OPTIONS_def includes_bits_or_right)

lemma default_includes_basic:
  "includes_bits (BASIC_OPTIONS S) b \<Longrightarrow> includes_bits (DEFAULT_OPTIONS S) b"
  by (simp add: DEFAULT_OPTIONS_def includes_bits_or_mono)

lemma default_no_sslv2: "includes_bits (DEFAULT_OPTIONS S) (OP_NO_SSLv2 S)"
  by (simp add: DEFAULT_OPTIONS_def includes_bits_or_left)

lemma default_no_sslv3: "includes_bits (DEFAULT_OPTIONS S) (OP_NO_SSLv3 S)"
  by (simp add: DEFAULT_OPTIONS_def includes_bits_or_left includes_bits_or_mono)

text \<open>
  C5. Every entry of \<open>VERSION_CHOICES\<close> has an option bitmask that includes the
  server-cipher-preference bit and, when the engine defines it, the no-compression bit;
  the entry \<^verbatim>\<open>secure\<close> exists and its bitmask also includes the bits that switch off
  SSLv2 and SSLv3.
\<close>

theorem version_choices_bitmasks:
  "(\<forall>(name, m, opts) \<in> set (VERSION_CHOICES S).
       includes_bits opts (OP_CIPHER_SERVER_PREFERENCE S)
     \<and> (\<forall>c. OP_NO_COMPRESSION S = Some c \<longrightarrow> includes_bits opts c)
     \<and> (name = ''secure'' \<longrightarrow>
          includes_bits opts (OP_NO_SSLv2 S) \<and> includes_bits opts (OP_NO_SSLv3 S)))
   \<and> dict_get (VERSION_CHOICES S) ''secure'' = Some (DEFAULT_METHOD S, DEFAULT_OPTIONS S)"
  by (simp add: VERSION_CHOICES_def dict_get_def basic_server_preference basic_no_compression
      default_includes_basic default_no_sslv2 default_no_sslv3)

theorem version_choices_bitmasks_witness:
  "(''secure'', 3, 0x3420000) \<in> set (VERSION_CHOICES sample_ssl)
   \<and> includes_bits 0x3420000 0x400000 \<and> includes_bits 0x3420000 0x20000
   \<and> includes_bits 0x3420000 0x1000000 \<and> includes_bits 0x3420000 0x2000000"
proof -
  have mem: "(''secure'', 3, 0x3420000) \<in> set (VERSION_CHOICES sample_ssl)"
    by (simp add: VERSION_CHOICES_def sample_ssl_def DEFAULT_METHOD_def DEFAULT_OPTIONS_def
        BASIC_OPTIONS_def)
  from version_choices_bitmasks [of sample_ssl] mem show ?thesis
    by (auto simp: sample_ssl_def)
qed

section \<open>What a built context holds\<close>

lemmas sample_eval = create_server_context_def create_ssl_context_def set_verify_options_def set_ciphers_def set_alpn_def
  install_identity_def sample_openssl_def sample_python_def sample_ssl_def default_kwargs_def
  resolve_ca_pemfile_def log_master_secret_def create_logfun_def py_or_def truthy_def
  DEFAULT_METHOD_def DEFAULT_OPTIONS_def BASIC_OPTIONS_def new_context_def Let_def

lemma set_alpn_keeps:
  "set_alpn kw c = Inr c' \<Longrightarrow>
     ctx_verify c' = ctx_verify c \<and> ctx_verify_locations c' = ctx_verify_locations c"
  by (auto simp: set_alpn_def split: option.splits alpn_callback.splits)

lemma set_ciphers_keeps:
  "set_ciphers E kw c = Inr c' \<Longrightarrow>
     ctx_verify c' = ctx_verify c \<and> ctx_verify_locations c' = ctx_verify_locations c"
  by (auto simp: set_ciphers_def split: option.splits if_splits)

lemma set_verify_options_Some:
  "set_verify_options P E kw (Some v) cb c = Inr c' \<Longrightarrow>
     ctx_verify c' = Some (v, cb)
     \<and> ctx_verify_locations c' = Some (resolve_ca_pemfile P kw, kw_ca_path kw)
     \<and> load_verify_locations E (resolve_ca_pemfile P kw) (kw_ca_path kw)"
  by (auto simp: set_verify_options_def Let_def split: if_splits option.splits)

lemma create_ssl_context_verify:
  assumes "create_ssl_context P E S kw (Some v) cb = Inr c"
  shows "ctx_verify c = Some (v, cb)
     \<and> ctx_verify_locations c = Some (resolve_ca_pemfile P kw, kw_ca_path kw)"
proof -
  from assms obtain c1 c2 where
    v: "set_verify_options P E kw (Some v) cb
          (case kw_options kw of None \<Rightarrow> new_context (kw_method kw)
           | Some opts \<Rightarrow> (new_context (kw_method kw))\<lparr>ctx_options := Some opts\<rparr>) = Inr c1"
    and ci: "set_ciphers E kw (c1\<lparr>ctx_auto_retry := True\<rparr>) = Inr c2"
    and al: "set_alpn kw (case log_master_secret P of None \<Rightarrow> c2
              | Some logger \<Rightarrow> c2\<lparr>ctx_info_callback := Some logger\<rparr>) = Inr c"
    by (auto simp: create_ssl_context_def Let_def split: if_splits sum.splits)
  from set_alpn_keeps [OF al] set_ciphers_keeps [OF ci] set_verify_options_Some [OF v]
  show ?thesis by (auto split: option.splits)
qed

lemma create_ssl_context_loaded:
  assumes "create_ssl_context P E S kw (Some v) cb = Inr c"
  shows "load_verify_locations E (resolve_ca_pemfile P kw) (kw_ca_path kw)"
proof -
  from assms obtain c1 where
    v: "set_verify_options P E kw (Some v) cb
          (case kw_options kw of None \<Rightarrow> new_context (kw_method kw)
           | Some opts \<Rightarrow> (new_context (kw_method kw))\<lparr>ctx_options := Some opts\<rparr>) = Inr c1"
    by (auto simp: create_ssl_context_def Let_def split: if_splits sum.splits)
  from set_verify_options_Some [OF v] show ?thesis by simp
qed

lemma create_ssl_context_no_callback:
  "Context_new E (kw_method kw) \<Longrightarrow> create_ssl_context P E S kw (Some v) None = Inl TypeError"
  by (simp add: create_ssl_context_def set_verify_options_def Let_def)

lemma create_ssl_context_load_fails:
  "Context_new E (kw_method kw) \<Longrightarrow>
   \<not> load_verify_locations E (resolve_ca_pemfile P kw) (kw_ca_path kw) \<Longrightarrow>
   create_ssl_context P E S kw (Some v) (Some f) =
     Inl (TlsException (''Cannot load trusted certificates ('' @ format_opt (resolve_ca_pemfile P kw)
                         @ '', '' @ format_opt (kw_ca_path kw) @ '').''))"
  by (simp add: create_ssl_context_def set_verify_options_def Let_def)

lemma install_identity_keeps:
  "install_identity E cert key c = Inr c' \<Longrightarrow>
     ctx_verify c' = ctx_verify c \<and> ctx_verify_locations c' = ctx_verify_locations c"
  by (auto simp: install_identity_def split: option.splits server_cert.splits)

lemma create_server_context_verify:
  assumes "create_server_context P E S cert key handle_sni rcc chain_file dh extra kw = Inr c"
  shows "ctx_verify c = Some (if rcc then VERIFY_PEER S else VERIFY_NONE S, Some accept_all)
     \<and> ctx_verify_locations c
         = Some (resolve_ca_pemfile P (kw\<lparr>kw_ca_pemfile := chain_file\<rparr>), kw_ca_path kw)"
proof -
  from assms obtain c1 c2 where
    a: "create_ssl_context P E S (kw\<lparr>kw_ca_pemfile := chain_file\<rparr>)
          (Some (if rcc then VERIFY_PEER S else VERIFY_NONE S)) (Some accept_all) = Inr c1"
    and b: "install_identity E cert key c1 = Inr c2"
    and c: "ctx_verify c = ctx_verify c2 \<and> ctx_verify_locations c = ctx_verify_locations c2"
    by (auto simp: create_server_context_def Let_def split: if_splits sum.splits option.splits)
  from create_ssl_context_verify [OF a] install_identity_keeps [OF b] c
  show ?thesis by simp
qed

lemma sample_server_ok:
  "\<exists>c. create_server_context sample_python sample_openssl sample_ssl (SSLCert sample_cert) (Obj 0) None False None None None
      (default_kwargs sample_ssl) = Inr c"
  by (simp add: sample_eval)

text \<open>
  C4. Whenever \<open>create_server_context\<close> returns a context, the verify callback it has
  installed returns a positive result for every connection, certificate, error code, chain
  depth and preliminary result, and leaves the connection as it was.
\<close>

theorem server_callback_accepts_all:
  "create_server_context P E S cert key handle_sni rcc chain_file dh extra kw = Inr c \<Longrightarrow>
     \<exists>v cb. ctx_verify c = Some (v, Some cb)
        \<and> (\<forall>conn x errno depth ok. cb conn x errno depth ok = (conn, True))"
  using create_server_context_verify [of P E S cert key handle_sni rcc chain_file dh extra kw c]
  by (simp add: accept_all_def)

theorem server_callback_accepts_all_witness:
  "\<exists>c v cb. create_server_context sample_python sample_openssl sample_ssl (SSLCert sample_cert)
        (Obj 0) None False None None None (default_kwargs sample_ssl) = Inr c
     \<and> ctx_verify c = Some (v, Some cb)
     \<and> cb sample_connection sample_cert 18 1 False = (sample_connection, True)"
proof -
  obtain c where c: "create_server_context sample_python sample_openssl sample_ssl
      (SSLCert sample_cert) (Obj 0) None False None None None (default_kwargs sample_ssl) = Inr c"
    using sample_server_ok by blast
  from server_callback_accepts_all [OF c] c show ?thesis by blast
qed

text \<open>
  C10, as amended. Whenever \<open>create_server_context\<close> returns a context, whatever
  \<^verbatim>\<open>request_client_cert\<close> is: a chain file that was supplied is the CA bundle of the verify
  locations loaded into the context; when neither a chain file nor a CA directory
  (\<^verbatim>\<open>ca_path\<close> among the keyword arguments) was supplied, the bundle is the system default
  one; and the engine has loaded these verify locations.
\<close>

theorem server_chain_file_is_trust_store:
  "create_server_context P E S cert key handle_sni rcc chain_file dh extra kw = Inr c \<Longrightarrow>
     (\<forall>path. chain_file = Some path \<longrightarrow> ctx_verify_locations c = Some (Some path, kw_ca_path kw))
     \<and> (chain_file = None \<and> kw_ca_path kw = None \<longrightarrow>
           ctx_verify_locations c = Some (Some (certifi_where P), None))
     \<and> load_verify_locations E (resolve_ca_pemfile P (kw\<lparr>kw_ca_pemfile := chain_file\<rparr>)) (kw_ca_path kw)"
proof -
  assume a: "create_server_context P E S cert key handle_sni rcc chain_file dh extra kw = Inr c"
  from a obtain c1 where
    b: "create_ssl_context P E S (kw\<lparr>kw_ca_pemfile := chain_file\<rparr>)
          (Some (if rcc then VERIFY_PEER S else VERIFY_NONE S)) (Some accept_all) = Inr c1"
    by (auto simp: create_server_context_def Let_def split: if_splits sum.splits)
  have l: "load_verify_locations E (resolve_ca_pemfile P (kw\<lparr>kw_ca_pemfile := chain_file\<rparr>)) (kw_ca_path kw)"
    using create_ssl_context_loaded [OF b] by simp
  from create_server_context_verify [OF a] l show ?thesis
    by (auto simp: resolve_ca_pemfile_def)
qed

theorem server_chain_file_is_trust_store_witness:
  "map_sum id ctx_verify_locations
     (create_server_context sample_python sample_openssl sample_ssl (SSLCert sample_cert) (Obj 0)
        None False (Some ''/proxy/chain.pem'') None None (default_kwargs sample_ssl))
     = Inr (Some (Some ''/proxy/chain.pem'', None))
   \<and> map_sum id ctx_verify_locations
     (create_server_context sample_python sample_openssl sample_ssl (SSLCert sample_cert) (Obj 0)
        None False None None None (default_kwargs sample_ssl))
     = Inr (Some (Some ''/certifi/cacert.pem'', None))"
proof -
  obtain c where c: "create_server_context sample_python sample_openssl sample_ssl
      (SSLCert sample_cert) (Obj 0) None False (Some ''/proxy/chain.pem'') None None
      (default_kwargs sample_ssl) = Inr c"
    by (simp add: sample_eval)
  obtain d where d: "create_server_context sample_python sample_openssl sample_ssl
      (SSLCert sample_cert) (Obj 0) None False None None None
      (default_kwargs sample_ssl) = Inr d"
    by (simp add: sample_eval)
  from server_chain_file_is_trust_store [OF c] server_chain_file_is_trust_store [OF d] c d
  show ?thesis by (simp add: default_kwargs_def sample_python_def)
qed

text \<open>C10 as stated fails: with no chain file and a CA directory among the keyword
  arguments, the context is built and the system default bundle is not loaded.\<close>

theorem server_default_bundle_counterexample:
  "map_sum id ctx_verify_locations
     (create_server_context sample_python sample_openssl sample_ssl (SSLCert sample_cert) (Obj 0)
        None False None None None ((default_kwargs sample_ssl)\<lparr>kw_ca_path := Some ''/etc/ssl/certs''\<rparr>))
   = Inr (Some (None, Some ''/etc/ssl/certs''))"
  by (simp add: sample_eval)

text \<open>
  C8, as amended. For every call of \<open>create_ssl_context\<close> with a verify mode that is
  not \<^verbatim>\<open>None\<close>, a verify callback, neither \<^verbatim>\<open>ca_path\<close> nor \<^verbatim>\<open>ca_pemfile\<close>, and a protocol
  method the engine accepts: a context that is returned holds the system default bundle as
  its verify locations, loaded by the engine; and when the engine cannot load that bundle
  the call fails with the error that names it. With a verify mode and no verify callback
  the call fails with the \<^verbatim>\<open>TypeError\<close> of \<^verbatim>\<open>set_verify\<close>, before any trust store is
  loaded.
\<close>

theorem default_trust_store:
  assumes "kw_ca_path kw = None" and "kw_ca_pemfile kw = None"
    and "Context_new E (kw_method kw)"
  shows "(\<forall>c. create_ssl_context P E S kw (Some v) (Some f) = Inr c \<longrightarrow>
            ctx_verify_locations c = Some (Some (certifi_where P), None)
            \<and> load_verify_locations E (Some (certifi_where P)) None)
     \<and> (\<not> load_verify_locations E (Some (certifi_where P)) None \<longrightarrow>
           create_ssl_context P E S kw (Some v) (Some f) =
             Inl (TlsException (''Cannot load trusted certificates ('' @ certifi_where P @ '', None).'')))
     \<and> create_ssl_context P E S kw (Some v) None = Inl TypeError"
proof -
  have r: "resolve_ca_pemfile P kw = Some (certifi_where P)"
    using assms by (simp add: resolve_ca_pemfile_def)
  show ?thesis
    using create_ssl_context_verify [of P E S kw v "Some f"]
      create_ssl_context_loaded [of P E S kw v "Some f"]
      create_ssl_context_load_fails [of E kw P S v f]
      create_ssl_context_no_callback [of E kw P S v] assms r
    by (auto simp: format_opt_def)
qed

theorem default_trust_store_witness:
  "kw_ca_path (default_kwargs sample_ssl) = None \<and> kw_ca_pemfile (default_kwargs sample_ssl) = None
   \<and> Context_new sample_openssl (kw_method (default_kwargs sample_ssl))
   \<and> map_sum id ctx_verify_locations
       (create_ssl_context sample_python sample_openssl sample_ssl (default_kwargs sample_ssl)
          (Some 1) (Some accept_all))
     = Inr (Some (Some ''/certifi/cacert.pem'', None))
   \<and> create_ssl_context sample_python sample_openssl sample_ssl (default_kwargs sample_ssl)
          (Some 1) None
     = Inl TypeError"
proof -
  have h: "kw_ca_path (default_kwargs sample_ssl) = None"
    "kw_ca_pemfile (default_kwargs sample_ssl) = None"
    "Context_new sample_openssl (kw_method (default_kwargs sample_ssl))"
    by (simp_all add: default_kwargs_def sample_openssl_def sample_ssl_def DEFAULT_METHOD_def)
  obtain c where c: "create_ssl_context sample_python sample_openssl sample_ssl
      (default_kwargs sample_ssl) (Some 1) (Some accept_all) = Inr c"
    by (simp add: sample_eval)
  from default_trust_store [OF h, of sample_python sample_ssl 1 accept_all] c h
  show ?thesis by (simp add: sample_python_def)
qed

text \<open>C8 as stated fails: with \<^verbatim>\<open>verify=None\<close> the block that resolves and loads the
  trust store is skipped, and the context is returned with no verify locations.\<close>

theorem default_trust_store_counterexample:
  "map_sum id ctx_verify_locations
     (create_ssl_context sample_python sample_openssl sample_ssl (default_kwargs sample_ssl) None None)
   = Inr None"
  by (simp add: sample_eval)

section \<open>The ALPN configuration\<close>

lemma set_alpn_conflict:
  "kw_alpn_protos kw = None \<Longrightarrow> kw_alpn_select kw = Some sel \<Longrightarrow>
   kw_alpn_select_callback kw = Some cb \<Longrightarrow>
   set_alpn kw c = Inl (TlsException
      ''ALPN error: only define alpn_select (string) OR alpn_select_callback (function).'')"
  by (simp add: set_alpn_def)

lemma create_ssl_context_cases:
  "(\<exists>e. create_ssl_context P E S kw verify vcb = Inl e) \<or>
   (\<exists>c. create_ssl_context P E S kw verify vcb = set_alpn kw c)"
  by (auto simp: create_ssl_context_def Let_def split: sum.splits)

lemma set_ciphers_ok:
  "(\<forall>c. kw_cipher_list kw = Some c \<and> c \<noteq> [] \<longrightarrow> set_cipher_list E c = None) \<Longrightarrow>
   \<exists>c'. set_ciphers E kw c = Inr c'"
  by (auto simp: set_ciphers_def split: option.splits)

lemma set_verify_options_ok:
  "(verify \<noteq> None \<longrightarrow>
      vcb \<noteq> None \<and> load_verify_locations E (resolve_ca_pemfile P kw) (kw_ca_path kw)) \<Longrightarrow>
   \<exists>c'. set_verify_options P E kw verify vcb c = Inr c'"
  by (auto simp: set_verify_options_def Let_def split: option.splits)

lemma create_ssl_context_reaches_alpn:
  assumes "Context_new E (kw_method kw)"
    and "verify \<noteq> None \<longrightarrow>
           vcb \<noteq> None \<and> load_verify_locations E (resolve_ca_pemfile P kw) (kw_ca_path kw)"
    and "\<forall>c. kw_cipher_list kw = Some c \<and> c \<noteq> [] \<longrightarrow> set_cipher_list E c = None"
  shows "\<exists>c. create_ssl_context P E S kw verify vcb = set_alpn kw c"
proof -
  obtain c1 where 1: "set_verify_options P E kw verify vcb
          (case kw_options kw of None \<Rightarrow> new_context (kw_method kw)
           | Some opts \<Rightarrow> (new_context (kw_method kw))\<lparr>ctx_options := Some opts\<rparr>) = Inr c1"
    using set_verify_options_ok [OF assms(2)] by blast
  obtain c2 where 2: "set_ciphers E kw (c1\<lparr>ctx_auto_retry := True\<rparr>) = Inr c2"
    using set_ciphers_ok [OF assms(3)] by blast
  show ?thesis using assms(1) 1 2 by (auto simp: create_ssl_context_def Let_def)
qed

text \<open>
  C3, as amended. For every call of \<open>create_ssl_context\<close> with no advertise list
  (\<^verbatim>\<open>alpn_protos\<close>) and with both \<^verbatim>\<open>alpn_select\<close> and \<^verbatim>\<open>alpn_select_callback\<close>, the call
  fails; and it fails with the ALPN configuration error whenever the engine accepts the
  protocol method, a verify callback is supplied and the trust store loads (if a verify
  mode is given) and the cipher list, if any, is accepted.
\<close>

theorem alpn_select_conflict:
  assumes "kw_alpn_protos kw = None" and "kw_alpn_select kw = Some sel"
    and "kw_alpn_select_callback kw = Some cb"
  shows "(\<exists>e. create_ssl_context P E S kw verify vcb = Inl e)
     \<and> (Context_new E (kw_method kw)
          \<and> (verify \<noteq> None \<longrightarrow>
                vcb \<noteq> None
                \<and> load_verify_locations E (resolve_ca_pemfile P kw) (kw_ca_path kw))
          \<and> (\<forall>c. kw_cipher_list kw = Some c \<and> c \<noteq> [] \<longrightarrow> set_cipher_list E c = None)
        \<longrightarrow> create_ssl_context P E S kw verify vcb
              = Inl (TlsException
                  ''ALPN error: only define alpn_select (string) OR alpn_select_callback (function).''))"
proof (intro conjI impI)
  show "\<exists>e. create_ssl_context P E S kw verify vcb = Inl e"
    using create_ssl_context_cases [of P E S kw verify vcb] set_alpn_conflict [OF assms]
    by auto
next
  assume h: "Context_new E (kw_method kw)
          \<and> (verify \<noteq> None \<longrightarrow>
                vcb \<noteq> None
                \<and> load_verify_locations E (resolve_ca_pemfile P kw) (kw_ca_path kw))
          \<and> (\<forall>c. kw_cipher_list kw = Some c \<and> c \<noteq> [] \<longrightarrow> set_cipher_list E c = None)"
  then obtain c where "create_ssl_context P E S kw verify vcb = set_alpn kw c"
    using create_ssl_context_reaches_alpn [where E = E and kw = kw and verify = verify
        and P = P and S = S and vcb = vcb] by blast
  then show "create_ssl_context P E S kw verify vcb
      = Inl (TlsException
          ''ALPN error: only define alpn_select (string) OR alpn_select_callback (function).'')"
    using set_alpn_conflict [OF assms] by simp
qed

theorem alpn_select_conflict_witness:
  "create_ssl_context sample_python sample_openssl sample_ssl
      ((default_kwargs sample_ssl)\<lparr>kw_alpn_select := Some ''h2'',
         kw_alpn_select_callback := Some (Function (alpn_select_function ''http/1.1''))\<rparr>)
      (Some 1) (Some accept_all)
   = Inl (TlsException
       ''ALPN error: only define alpn_select (string) OR alpn_select_callback (function).'')"
proof -
  let ?kw = "(default_kwargs sample_ssl)\<lparr>kw_alpn_select := Some ''h2'',
         kw_alpn_select_callback := Some (Function (alpn_select_function ''http/1.1''))\<rparr>"
  have h: "kw_alpn_protos ?kw = None" "kw_alpn_select ?kw = Some ''h2''"
    "kw_alpn_select_callback ?kw = Some (Function (alpn_select_function ''http/1.1''))"
    by (simp_all add: default_kwargs_def)
  have g: "Context_new sample_openssl (kw_method ?kw)"
    "Some accept_all \<noteq> None"
    "load_verify_locations sample_openssl (resolve_ca_pemfile sample_python ?kw) (kw_ca_path ?kw)"
    "\<forall>c. kw_cipher_list ?kw = Some c \<and> c \<noteq> [] \<longrightarrow> set_cipher_list sample_openssl c = None"
    by (simp_all add: default_kwargs_def sample_openssl_def sample_ssl_def DEFAULT_METHOD_def)
  from alpn_select_conflict [OF h, of sample_python sample_openssl sample_ssl "Some 1"
      "Some accept_all"] g
  show ?thesis by simp
qed

text \<open>C3 as stated fails: when an advertise list is supplied as well, it is installed and
  the call returns a context.\<close>

theorem alpn_both_counterexample:
  "map_sum id ctx_alpn_protos
     (create_ssl_context sample_python sample_openssl sample_ssl
        ((default_kwargs sample_ssl)\<lparr>kw_alpn_protos := Some [''h2''], kw_alpn_select := Some ''h2'',
           kw_alpn_select_callback := Some (Function (alpn_select_function ''http/1.1''))\<rparr>)
        (Some 1) (Some accept_all))
   = Inr (Some [''h2''])"
  by (simp add: sample_eval)

section \<open>A protocol method the engine rejects\<close>

lemma dict_get_distinct:
  "distinct (map fst items) \<Longrightarrow> (k, v) \<in> set items \<Longrightarrow> dict_get items k = Some v"
  by (simp add: dict_get_def rev_map [symmetric])

lemma dict_get_absent: "k \<notin> fst ` set items \<Longrightarrow> dict_get items k = None"
  by (simp add: dict_get_def map_of_eq_None_iff)

text \<open>
  C6, as amended. For every protocol method the engine rejects, \<open>create_ssl_context\<close>
  fails with the unsupported-protocol error. When the method is one of the six constants
  of the engine that \<open>METHOD_NAMES\<close> lists (the constants being distinct), the message
  holds, between double quotes, the name listed for it; for any other method it holds the
  word \<^verbatim>\<open>unknown\<close> there.
\<close>

theorem unsupported_method_named:
  assumes "\<not> Context_new E (kw_method kw)"
  shows "(\<forall>name. distinct [SSLv2_METHOD S, SSLv3_METHOD S, SSLv23_METHOD S, TLSv1_METHOD S,
                      TLSv1_1_METHOD S, TLSv1_2_METHOD S]
            \<and> (kw_method kw, name)
                \<in> set [(SSLv2_METHOD S, ''SSLv2''), (SSLv3_METHOD S, ''SSLv3''),
                        (SSLv23_METHOD S, ''SSLv23''), (TLSv1_METHOD S, ''TLSv1''),
                        (TLSv1_1_METHOD S, ''TLSv1.1''), (TLSv1_2_METHOD S, ''TLSv1.2'')]
          \<longrightarrow> create_ssl_context P E S kw verify vcb
                = Inl (TlsException
                    (''SSL method '' @ [CHR 0x22] @ name @ [CHR 0x22]
                     @ '' is most likely not supported or disabled (for security reasons) in your libssl. Please refer to https://github.com/mitmproxy/mitmproxy/issues/1101 for more details.'')))
     \<and> (kw_method kw
            \<notin> set [SSLv2_METHOD S, SSLv3_METHOD S, SSLv23_METHOD S, TLSv1_METHOD S,
                    TLSv1_1_METHOD S, TLSv1_2_METHOD S]
          \<longrightarrow> create_ssl_context P E S kw verify vcb
                = Inl (TlsException
                    (''SSL method '' @ [CHR 0x22] @ ''unknown'' @ [CHR 0x22]
                     @ '' is most likely not supported or disabled (for security reasons) in your libssl. Please refer to https://github.com/mitmproxy/mitmproxy/issues/1101 for more details.'')))"
proof (intro conjI allI impI)
  fix name
  assume h: "distinct [SSLv2_METHOD S, SSLv3_METHOD S, SSLv23_METHOD S, TLSv1_METHOD S,
                      TLSv1_1_METHOD S, TLSv1_2_METHOD S]
            \<and> (kw_method kw, name)
                \<in> set [(SSLv2_METHOD S, ''SSLv2''), (SSLv3_METHOD S, ''SSLv3''),
                        (SSLv23_METHOD S, ''SSLv23''), (TLSv1_METHOD S, ''TLSv1''),
                        (TLSv1_1_METHOD S, ''TLSv1.1''), (TLSv1_2_METHOD S, ''TLSv1.2'')]"
  then have d: "distinct (map fst (METHOD_NAMES S))"
    and m: "(kw_method kw, name) \<in> set (METHOD_NAMES S)"
    by (simp_all add: METHOD_NAMES_def)
  have "method_name_of S (kw_method kw) = name"
    using dict_get_distinct [OF d m] by (simp add: method_name_of_def)
  with assms show "create_ssl_context P E S kw verify vcb
                = Inl (TlsException
                    (''SSL method '' @ [CHR 0x22] @ name @ [CHR 0x22]
                     @ '' is most likely not supported or disabled (for security reasons) in your libssl. Please refer to https://github.com/mitmproxy/mitmproxy/issues/1101 for more details.''))"
    by (simp add: create_ssl_context_def unsupported_method_message_def)
next
  assume "kw_method kw
            \<notin> set [SSLv2_METHOD S, SSLv3_METHOD S, SSLv23_METHOD S, TLSv1_METHOD S,
                    TLSv1_1_METHOD S, TLSv1_2_METHOD S]"
  then have "kw_method kw \<notin> fst ` set (METHOD_NAMES S)"
    by (simp add: METHOD_NAMES_def)
  then have "method_name_of S (kw_method kw) = ''unknown''"
    using dict_get_absent [of "kw_method kw" "METHOD_NAMES S"] by (simp add: method_name_of_def)
  with assms show "create_ssl_context P E S kw verify vcb
                = Inl (TlsException
                    (''SSL method '' @ [CHR 0x22] @ ''unknown'' @ [CHR 0x22]
                     @ '' is most likely not supported or disabled (for security reasons) in your libssl. Please refer to https://github.com/mitmproxy/mitmproxy/issues/1101 for more details.''))"
    by (simp add: create_ssl_context_def unsupported_method_message_def)
qed

theorem unsupported_method_named_witness:
  "\<not> Context_new sample_openssl (kw_method ((default_kwargs sample_ssl)\<lparr>kw_method := 2\<rparr>))
   \<and> SSLv3_METHOD sample_ssl = 2
   \<and> create_ssl_context sample_python sample_openssl sample_ssl
        ((default_kwargs sample_ssl)\<lparr>kw_method := 2\<rparr>) (Some 1) (Some accept_all)
      = Inl (TlsException
          (''SSL method '' @ [CHR 0x22] @ ''SSLv3'' @ [CHR 0x22]
           @ '' is most likely not supported or disabled (for security reasons) in your libssl. Please refer to https://github.com/mitmproxy/mitmproxy/issues/1101 for more details.''))
   \<and> \<not> Context_new sample_openssl (kw_method ((default_kwargs sample_ssl)\<lparr>kw_method := 1\<rparr>))
   \<and> SSLv2_METHOD sample_ssl = 1
   \<and> create_ssl_context sample_python sample_openssl sample_ssl
        ((default_kwargs sample_ssl)\<lparr>kw_method := 1\<rparr>) (Some 1) (Some accept_all)
      = Inl (TlsException
          (''SSL method '' @ [CHR 0x22] @ ''SSLv2'' @ [CHR 0x22]
           @ '' is most likely not supported or disabled (for security reasons) in your libssl. Please refer to https://github.com/mitmproxy/mitmproxy/issues/1101 for more details.''))"
proof -
  let ?k3 = "(default_kwargs sample_ssl)\<lparr>kw_method := 2\<rparr>"
  let ?k2 = "(default_kwargs sample_ssl)\<lparr>kw_method := 1\<rparr>"
  have h: "\<not> Context_new sample_openssl (kw_method ?k3)"
    "\<not> Context_new sample_openssl (kw_method ?k2)"
    by (simp_all add: sample_openssl_def)
  have c: "SSLv2_METHOD sample_ssl = 1" "SSLv3_METHOD sample_ssl = 2"
    "SSLv23_METHOD sample_ssl = 3" "TLSv1_METHOD sample_ssl = 4"
    "TLSv1_1_METHOD sample_ssl = 5" "TLSv1_2_METHOD sample_ssl = 6"
    "kw_method ?k3 = 2" "kw_method ?k2 = 1"
    by (simp_all add: sample_ssl_def)
  from unsupported_method_named [OF h(1), of sample_ssl sample_python "Some 1" "Some accept_all"]
    unsupported_method_named [OF h(2), of sample_ssl sample_python "Some 1" "Some accept_all"]
    h c
  show ?thesis by simp
qed

text \<open>C6 as stated fails: a rejected method outside \<open>METHOD_NAMES\<close>, here 99, is not
  named by the message.\<close>

theorem unsupported_method_counterexample:
  "create_ssl_context sample_python sample_openssl sample_ssl
      ((default_kwargs sample_ssl)\<lparr>kw_method := 99\<rparr>) (Some 1) (Some accept_all)
   = Inl (TlsException (''SSL method '' @ [CHR 0x22] @ ''unknown'' @ [CHR 0x22]
        @ '' is most likely not supported or disabled (for security reasons) in your libssl. Please refer to https://github.com/mitmproxy/mitmproxy/issues/1101 for more details.''))"
  by (simp add: sample_eval method_name_of_def dict_get_def METHOD_NAMES_def unsupported_method_message_def)

section \<open>A server name is required to verify\<close>

lemma set_verify_options_not_sni:
  "set_verify_options P E kw verify cb c \<noteq> Inl (TlsException ''Cannot validate certificate hostname without SNI'')"
  by (simp add: set_verify_options_def Let_def split: option.split)

lemma set_ciphers_not_sni:
  "set_ciphers E kw c \<noteq> Inl (TlsException ''Cannot validate certificate hostname without SNI'')"
  by (simp add: set_ciphers_def split: option.split)

lemma set_alpn_not_sni:
  "set_alpn kw c \<noteq> Inl (TlsException ''Cannot validate certificate hostname without SNI'')"
  by (simp add: set_alpn_def split: option.split alpn_callback.split)

lemma create_ssl_context_not_sni:
  "create_ssl_context P E S kw verify cb \<noteq> Inl (TlsException ''Cannot validate certificate hostname without SNI'')"
proof
  assume a: "create_ssl_context P E S kw verify cb = Inl (TlsException ''Cannot validate certificate hostname without SNI'')"
  show False
  proof (cases "Context_new E (kw_method kw)")
    case False
    with a show False by (simp add: create_ssl_context_def unsupported_method_message_def)
  next
    case True
    with a show False
      using set_verify_options_not_sni set_ciphers_not_sni set_alpn_not_sni
      by (auto simp: create_ssl_context_def Let_def split: sum.splits)
  qed
qed

text \<open>
  C2. With no \<^verbatim>\<open>sni\<close> and a verify mode other than \<^verbatim>\<open>VERIFY_NONE\<close>,
  \<open>create_client_context\<close> fails with the error that asks for an SNI, before any context
  is built; with no \<^verbatim>\<open>sni\<close> and the verify mode \<^verbatim>\<open>VERIFY_NONE\<close> it never fails with this
  error.
\<close>

theorem client_context_requires_sni:
  "(verify \<noteq> Some (VERIFY_NONE S) \<longrightarrow>
      create_client_context P E S cert None address verify kw
        = Inl (TlsException ''Cannot validate certificate hostname without SNI''))
   \<and> create_client_context P E S cert None address (Some (VERIFY_NONE S)) kw
        \<noteq> Inl (TlsException ''Cannot validate certificate hostname without SNI'')"
  using create_ssl_context_not_sni [of P E S kw "Some (VERIFY_NONE S)"]
  by (auto simp: create_client_context_def split: sum.splits option.splits)

theorem client_context_requires_sni_witness:
  "Some (1::int) \<noteq> Some (VERIFY_NONE sample_ssl)
   \<and> create_client_context sample_python sample_openssl sample_ssl None None None (Some 1)
        (default_kwargs sample_ssl)
      = Inl (TlsException ''Cannot validate certificate hostname without SNI'')
   \<and> \<not> isl (create_client_context sample_python sample_openssl sample_ssl None None None
              (Some 0) (default_kwargs sample_ssl))"
proof -
  have h: "Some (1::int) \<noteq> Some (VERIFY_NONE sample_ssl)"
    by (simp add: sample_ssl_def)
  have r: "\<not> isl (create_client_context sample_python sample_openssl sample_ssl None None None
              (Some 0) (default_kwargs sample_ssl))"
    by (simp add: create_client_context_def sample_eval)
  from client_context_requires_sni [of "Some 1" sample_ssl sample_python sample_openssl None None
      "default_kwargs sample_ssl"] h r
  show ?thesis by simp
qed

section \<open>The verify callback of the client context\<close>

lemma first_non_ascii_None: "first_non_ascii b = None \<longleftrightarrow> is_ascii b"
  by (induction b) (auto simp: is_ascii_def)

lemma decode_ascii_ok: "is_ascii b \<Longrightarrow> decode_ascii b = Inr b"
  using first_non_ascii_None [of b] by (simp add: decode_ascii_def)

lemma decode_ascii_fails: "\<not> is_ascii b \<Longrightarrow> \<exists>e. decode_ascii b = Inl e"
  using first_non_ascii_None [of b]
  by (auto simp: decode_ascii_def split: option.splits)

lemma decode_all_ok: "list_all is_ascii bs \<Longrightarrow> decode_all bs = Inr bs"
  by (induction bs) (auto simp: decode_ascii_ok)

lemma decode_all_fails: "\<not> list_all is_ascii bs \<Longrightarrow> \<exists>e. decode_all bs = Inl e"
proof (induction bs)
  case Nil
  then show ?case by simp
next
  case (Cons b bs)
  show ?case
  proof (cases "is_ascii b")
    case True
    with Cons show ?thesis by (auto simp: decode_ascii_ok)
  next
    case False
    then show ?thesis using decode_ascii_fails [of b] by auto
  qed
qed

lemma leaf_crt_ok:
  "list_all is_ascii (altnames cert) \<Longrightarrow> (\<forall>c. cn cert = Some c \<longrightarrow> is_ascii c) \<Longrightarrow>
   leaf_crt cert = Inr (leaf_descriptor cert)"
  by (auto simp: leaf_crt_def leaf_descriptor_def decode_all_ok decode_ascii_ok split: option.splits)

lemma leaf_crt_fails:
  "\<not> list_all is_ascii (altnames cert) \<or> (\<exists>c. cn cert = Some c \<and> \<not> is_ascii c) \<Longrightarrow>
   \<exists>e. leaf_crt cert = Inl e"
proof (cases "list_all is_ascii (altnames cert)")
  case False
  then show ?thesis using decode_all_fails [of "altnames cert"] by (auto simp: leaf_crt_def)
next
  case True
  assume "\<not> list_all is_ascii (altnames cert) \<or> (\<exists>c. cn cert = Some c \<and> \<not> is_ascii c)"
  with True obtain c where c: "cn cert = Some c" "\<not> is_ascii c" by blast
  then have "c \<noteq> []" by (auto simp: is_ascii_def)
  with c True show ?thesis
    using decode_ascii_fails [of c] by (auto simp: leaf_crt_def decode_all_ok)
qed

lemma sni_hostname_cases:
  "sni_hostname P sni = Inr hostname \<longleftrightarrow>
     (\<not> truthy sni \<and> hostname = ''no-hostname'')
     \<or> (\<exists>s. sni = Some s \<and> s \<noteq> [] \<and> encode_idna P s = Inr hostname \<and> is_ascii hostname)"
proof (cases sni)
  case None
  then show ?thesis by (auto simp: sni_hostname_def truthy_def)
next
  case (Some s)
  show ?thesis
  proof (cases "s = []")
    case True
    with Some show ?thesis by (auto simp: sni_hostname_def truthy_def)
  next
    case False
    show ?thesis
    proof (cases "encode_idna P s")
      case (Inl e)
      with Some False show ?thesis by (simp add: sni_hostname_def truthy_def)
    next
      case (Inr b)
      show ?thesis
      proof (cases "is_ascii b")
        case True
        with Some False Inr show ?thesis
          by (auto simp: sni_hostname_def truthy_def decode_ascii_ok)
      next
        case nb: False
        with Some False Inr show ?thesis
          using decode_ascii_fails [of b] by (auto simp: sni_hostname_def truthy_def)
      qed
    qed
  qed
qed

lemmas callback_eval = verify_callback_def check_hostname_def leaf_crt_def sni_hostname_def
  decode_ascii_def sni_or_address_def sample_python_def sample_openssl_def literal_match_def
  sample_cert_def sample_connection_def format_opt_def hex_byte_def hex_char_def

text \<open>
  C1, as amended. At chain depth 0 with a positive preliminary result: when every subject
  alternative name and the common name of the leaf certificate are ASCII and the SNI value
  goes through the \<^verbatim>\<open>idna\<close> codec (the host name is then the encoded value, or the
  placeholder \<^verbatim>\<open>no-hostname\<close> when the SNI is \<^verbatim>\<open>None\<close> or empty), the callback matches
  the host name against the descriptor built from the alternative names and the common
  name, if present and not empty; on a mismatch it attaches a verification error and
  returns a negative result, on a match it returns the positive result and attaches
  nothing. When a name is not ASCII or the SNI value does not encode, nothing is matched:
  the callback attaches a verification error and returns a negative result.
\<close>

theorem verify_callback_leaf:
  "(list_all is_ascii (altnames cert) \<and> (\<forall>c. cn cert = Some c \<longrightarrow> is_ascii c)
      \<and> ((\<not> truthy sni \<and> hostname = ''no-hostname'')
           \<or> (\<exists>s. sni = Some s \<and> s \<noteq> [] \<and> encode_idna P s = Inr hostname \<and> is_ascii hostname))
    \<longrightarrow>
      verify_callback P E sni address conn cert errno 0 True =
        (case match_hostname P (leaf_descriptor cert) hostname of
           None \<Rightarrow> (conn, True)
         | Some e \<Rightarrow>
             (conn\<lparr>cert_error := Some (InvalidCertificateException
                 (''Certificate verification error for '' @ sni_or_address P sni address
                  @ '': '' @ e))\<rparr>,
              False)))
   \<and> (\<not> list_all is_ascii (altnames cert) \<or> (\<exists>c. cn cert = Some c \<and> \<not> is_ascii c)
        \<or> (\<exists>e. sni_hostname P sni = Inl e)
    \<longrightarrow>
      (\<exists>e. verify_callback P E sni address conn cert errno 0 True =
        (conn\<lparr>cert_error := Some (InvalidCertificateException
            (''Certificate verification error for '' @ sni_or_address P sni address
             @ '': '' @ e))\<rparr>,
         False)))"
proof (intro conjI impI)
  assume h: "list_all is_ascii (altnames cert) \<and> (\<forall>c. cn cert = Some c \<longrightarrow> is_ascii c)
      \<and> ((\<not> truthy sni \<and> hostname = ''no-hostname'')
           \<or> (\<exists>s. sni = Some s \<and> s \<noteq> [] \<and> encode_idna P s = Inr hostname \<and> is_ascii hostname))"
  then have l: "leaf_crt cert = Inr (leaf_descriptor cert)"
    by (simp add: leaf_crt_ok)
  from h have s: "sni_hostname P sni = Inr hostname"
    by (simp only: sni_hostname_cases)
  from l s show "verify_callback P E sni address conn cert errno 0 True =
        (case match_hostname P (leaf_descriptor cert) hostname of
           None \<Rightarrow> (conn, True)
         | Some e \<Rightarrow>
             (conn\<lparr>cert_error := Some (InvalidCertificateException
                 (''Certificate verification error for '' @ sni_or_address P sni address
                  @ '': '' @ e))\<rparr>,
              False))"
    by (simp add: verify_callback_def check_hostname_def split: option.split)
next
  assume h: "\<not> list_all is_ascii (altnames cert) \<or> (\<exists>c. cn cert = Some c \<and> \<not> is_ascii c)
        \<or> (\<exists>e. sni_hostname P sni = Inl e)"
  have "\<exists>e. check_hostname P sni cert = Some e"
  proof (cases "leaf_crt cert")
    case (Inl e)
    then show ?thesis by (simp add: check_hostname_def)
  next
    case (Inr d)
    with h obtain e where "sni_hostname P sni = Inl e"
      using leaf_crt_fails [of cert] by auto
    with Inr show ?thesis by (simp add: check_hostname_def)
  qed
  then show "\<exists>e. verify_callback P E sni address conn cert errno 0 True =
        (conn\<lparr>cert_error := Some (InvalidCertificateException
            (''Certificate verification error for '' @ sni_or_address P sni address
             @ '': '' @ e))\<rparr>,
         False)"
    by (auto simp: verify_callback_def)
qed

theorem verify_callback_leaf_witness:
  "list_all is_ascii (altnames sample_cert)
   \<and> verify_callback sample_python sample_openssl (Some ''example.com'') None sample_connection
        sample_cert 0 0 True = (sample_connection, True)
   \<and> verify_callback sample_python sample_openssl (Some ''other.com'') None sample_connection
        sample_cert 0 0 True
      = (sample_connection\<lparr>cert_error := Some (InvalidCertificateException
           ''Certificate verification error for other.com: hostname other.com does not match'')\<rparr>,
         False)"
proof -
  have a: "list_all is_ascii (altnames sample_cert)"
    "\<forall>c. cn sample_cert = Some c \<longrightarrow> is_ascii c"
    by (simp_all add: sample_cert_def is_ascii_def)
  have e: "encode_idna sample_python ''example.com'' = Inr ''example.com''"
    "encode_idna sample_python ''other.com'' = Inr ''other.com''"
    "is_ascii ''example.com''" "is_ascii ''other.com''"
    by (simp_all add: sample_python_def is_ascii_def)
  have m: "match_hostname sample_python (leaf_descriptor sample_cert) ''example.com'' = None"
    "match_hostname sample_python (leaf_descriptor sample_cert) ''other.com''
       = Some ''hostname other.com does not match''"
    by (simp_all add: sample_python_def literal_match_def leaf_descriptor_def sample_cert_def)
  from verify_callback_leaf [of sample_cert "Some ''example.com''" "''example.com''" sample_python
      sample_openssl None sample_connection 0]
    verify_callback_leaf [of sample_cert "Some ''other.com''" "''other.com''" sample_python
      sample_openssl None sample_connection 0]
    a e m
  show ?thesis by (simp add: sni_or_address_def)
qed

text \<open>C1 as stated fails: the certificate below lists the requested host name, which the
  matcher accepts, but its second alternative name is not ASCII; no descriptor is built,
  and the callback attaches an error and returns a negative result.\<close>

theorem verify_callback_leaf_counterexample:
  "literal_match \<lparr>subjectAltName = [(''DNS'', ''example.com'')], subject = None\<rparr> ''example.com'' = None
   \<and> leaf_crt \<lparr>altnames = [''example.com'', [CHR 0xFF]], cn = None\<rparr>
      = Inl (CHR 0x27 # ''ascii'' @ CHR 0x27 # '' codec can'' @ CHR 0x27
             # ''t decode byte 0xff in position 0: ordinal not in range(128)'')
   \<and> verify_callback sample_python sample_openssl (Some ''example.com'') None sample_connection
        \<lparr>altnames = [''example.com'', [CHR 0xFF]], cn = None\<rparr> 0 0 True
      = (sample_connection\<lparr>cert_error := Some (InvalidCertificateException
           (''Certificate verification error for example.com: '' @ CHR 0x27 # ''ascii'' @ CHR 0x27
            # '' codec can'' @ CHR 0x27
            # ''t decode byte 0xff in position 0: ordinal not in range(128)''))\<rparr>,
         False)"
  by (simp add: callback_eval nat_digits.simps digit_char_def)

text \<open>
  C7, as amended. The verification errors the callback attaches are these two. After a
  failed host name check at depth 0, the message holds the SNI value, or the
  \<^verbatim>\<open>repr\<close> of the peer address when the SNI is \<^verbatim>\<open>None\<close> or empty, and the text of the
  failure; it holds no error code and no depth. After a negative preliminary result, with
  an SNI value configured, the message holds the SNI value, the engine's text for the error
  code, the error code and the chain depth. No other invocation attaches an error.
\<close>

theorem attached_error_contents:
  "(\<forall>e. check_hostname P sni cert = Some e \<longrightarrow>
       verify_callback P E sni address conn cert errno 0 True =
         (conn\<lparr>cert_error := Some (InvalidCertificateException
             (''Certificate verification error for '' @ sni_or_address P sni address
              @ '': '' @ e))\<rparr>,
          False))
   \<and> (\<forall>s. sni = Some s \<longrightarrow>
         verify_callback P E sni address conn cert errno depth False =
           (conn\<lparr>cert_error := Some (InvalidCertificateException
               (''Certificate verification error for '' @ s @ '': ''
                @ X509_verify_cert_error_string E errno
                @ '' (errno: '' @ format_int errno @ '', depth: '' @ format_int depth @ '')''))\<rparr>,
            False))
   \<and> (depth \<noteq> 0 \<or> check_hostname P sni cert = None \<longrightarrow>
         verify_callback P E sni address conn cert errno depth True = (conn, True))
   \<and> (\<forall>s. sni = Some s \<and> s \<noteq> [] \<longrightarrow> sni_or_address P sni address = s)
   \<and> (\<not> truthy sni \<longrightarrow> sni_or_address P sni address = repr_address P address)"
  by (auto simp: verify_callback_def sni_or_address_def truthy_def format_opt_def
      split: option.splits)

theorem attached_error_contents_witness:
  "check_hostname sample_python (Some ''other.com'') sample_cert
     = Some ''hostname other.com does not match''
   \<and> verify_callback sample_python sample_openssl (Some ''other.com'') None sample_connection
        sample_cert 0 0 True
      = (sample_connection\<lparr>cert_error := Some (InvalidCertificateException
           ''Certificate verification error for other.com: hostname other.com does not match'')\<rparr>,
         False)
   \<and> verify_callback sample_python sample_openssl (Some ''example.com'') None sample_connection
        sample_cert 18 2 False
      = (sample_connection\<lparr>cert_error := Some (InvalidCertificateException
           ''Certificate verification error for example.com: self signed certificate (errno: 18, depth: 2)'')\<rparr>,
         False)
   \<and> verify_callback sample_python sample_openssl (Some ''example.com'') None sample_connection
        sample_cert 0 1 True = (sample_connection, True)"
proof -
  have c: "check_hostname sample_python (Some ''other.com'') sample_cert
     = Some ''hostname other.com does not match''"
    by (simp add: callback_eval)
  have f: "format_int 18 = ''18''" "format_int 2 = ''2''"
    by (simp_all add: format_int_def nat_digits.simps digit_char_def)
  have x: "X509_verify_cert_error_string sample_openssl 18 = ''self signed certificate''"
    by (simp add: sample_openssl_def)
  from attached_error_contents [of sample_python "Some ''other.com''" sample_cert sample_openssl
      None sample_connection 0 0]
    attached_error_contents [of sample_python "Some ''example.com''" sample_cert sample_openssl
      None sample_connection 18 2]
    attached_error_contents [of sample_python "Some ''example.com''" sample_cert sample_openssl
      None sample_connection 0 1]
    c f x
  show ?thesis by simp
qed

text \<open>C7 as stated fails: the error attached on a host name mismatch holds neither the
  error code nor the chain depth.\<close>

theorem attached_error_counterexample:
  "verify_callback sample_python sample_openssl (Some ''other.com'') None sample_connection
      sample_cert 0 0 True
   = (sample_connection\<lparr>cert_error := Some (InvalidCertificateException
        ''Certificate verification error for other.com: hostname other.com does not match'')\<rparr>,
      False)"
  by (simp add: callback_eval)

section \<open>The records of the master-secret logger\<close>

lemma hex_char_digit: "d < 16 \<Longrightarrow> hex_char d \<in> set ''0123456789abcdef''"
  unfolding hex_char_def by (rule nth_mem) simp

lemma hexlify_length: "length (hexlify b) = 2 * length b"
  by (induction b) (simp_all add: hexlify_def hex_byte_def)

lemma of_char_bound: "(of_char (c :: char) :: nat) < 256"
  by (cases c) (simp add: of_char_def)

lemma hex_byte_digits: "set (hex_byte c) \<subseteq> set ''0123456789abcdef''"
proof -
  have two: "\<And>x y T. x \<in> T \<Longrightarrow> y \<in> T \<Longrightarrow> set [x, y] \<subseteq> (T :: char set)"
    by simp
  have hi: "(of_char c :: nat) div 16 < 16"
    using of_char_bound [of c] by arith
  have lo: "(of_char c :: nat) mod 16 < 16"
    by simp
  show ?thesis
    unfolding hex_byte_def
    by (rule two) (rule hex_char_digit [OF hi], rule hex_char_digit [OF lo])
qed

lemma hexlify_digits: "set (hexlify b) \<subseteq> set ''0123456789abcdef''"
  unfolding hexlify_def using hex_byte_digits by (induction b) auto

lemma call_effects_under_lock: "under_lock False (call_effects P self conn)"
  by (simp add: call_effects_def)

lemmas logger_eval = logger_call_def open_logfile_def log_effect_def f_write_def f_flush_def
  client_random_line_def hexlify_def hex_byte_def hex_char_def new_logger_def sample_python_def
  sample_ssl_def sample_connection_def posix_dirname_def Let_def

text \<open>
  Where the file is open already, or its directory exists or can be made and the file
  opens, a handshake-completion event makes the logger append one record, after a blank
  line when it has just opened the file, and flush it; the lock is acquired before the
  first effect and released after the last.
\<close>

lemma logger_appends_record:
  assumes "where' = SSL_CB_HANDSHAKE_DONE S" and "ret = 1"
    and "msl_f self = None \<longrightarrow>
           (os_path_isdir P (os_path_dirname P (msl_filename self))
            \<or> os_makedirs P (os_path_dirname P (msl_filename self)) = None)
           \<and> open_ab P (msl_filename self) = None"
  shows "\<exists>self'. logger_call P S self conn where' ret = (None, self')
     \<and> flushed_bytes self' =
          flushed_bytes self @ pending_bytes self
          @ (if msl_f self = None then [CHR 0x0D, CHR 0x0A] else [])
          @ ''CLIENT_RANDOM '' @ hexlify (client_random conn) @ '' '' @ hexlify (master_key conn)
          @ [CHR 0x0D, CHR 0x0A]
     \<and> pending_bytes self' = []
     \<and> msl_effects self' = msl_effects self @ call_effects P self conn
     \<and> under_lock False (call_effects P self conn)"
proof (cases "msl_f self")
  case None
  with assms show ?thesis
    by (auto simp: logger_call_def open_logfile_def log_effect_def f_write_def f_flush_def
        flushed_bytes_def pending_bytes_def call_effects_def client_random_line_def Let_def)
next
  case (Some h)
  with assms show ?thesis
    by (auto simp: logger_call_def open_logfile_def log_effect_def f_write_def f_flush_def
        flushed_bytes_def pending_bytes_def call_effects_def client_random_line_def Let_def)
qed

lemma logger_appends_record_sample:
  "logger_call sample_python sample_ssl (new_logger ''/tmp/keys.log'') sample_connection 0x20 1
   = (None,
      \<lparr>msl_filename = ''/tmp/keys.log'',
       msl_f = Some \<lparr>pending = [],
                     appended = [CHR 0x0D, CHR 0x0A] @ ''CLIENT_RANDOM 01ab ff'' @ [CHR 0x0D, CHR 0x0A]\<rparr>,
       msl_effects = [Acquire, Open_ab ''/tmp/keys.log'', Write_bytes [CHR 0x0D, CHR 0x0A],
                      Write_bytes (''CLIENT_RANDOM 01ab ff'' @ [CHR 0x0D, CHR 0x0A]), Flush, Release]\<rparr>)"
proof -
  let ?self = "new_logger ''/tmp/keys.log''"
  have h: "0x20 = SSL_CB_HANDSHAKE_DONE sample_ssl" "(1::int) = 1"
    "msl_f ?self = None \<longrightarrow>
           (os_path_isdir sample_python (os_path_dirname sample_python (msl_filename ?self))
            \<or> os_makedirs sample_python (os_path_dirname sample_python (msl_filename ?self)) = None)
           \<and> open_ab sample_python (msl_filename ?self) = None"
    by (simp_all add: sample_ssl_def sample_python_def new_logger_def posix_dirname_def)
  from logger_appends_record [OF h, of sample_connection]
  obtain self' where r: "logger_call sample_python sample_ssl ?self sample_connection 0x20 1 = (None, self')"
    by blast
  then show ?thesis by (simp add: logger_eval)
qed

text \<open>
  C9. The claim asks for one record at every handshake-completion event of an enabled
  logger. For a log file named without a directory part, \<^verbatim>\<open>os.path.dirname\<close> is empty,
  which is no directory, and \<^verbatim>\<open>os.makedirs("")\<close> raises: the first event raises
  \<^verbatim>\<open>FileNotFoundError\<close> under the lock, the file is not opened and no record is written,
  although the file itself could be opened.
\<close>

theorem logger_bare_filename:
  "open_ab sample_python ''keys.log'' = None
   \<and> logger_call sample_python sample_ssl (new_logger ''keys.log'') sample_connection 0x20 1
     = (Some (OSError (''[Errno 2] No such file or directory: '' @ [CHR 0x27, CHR 0x27])),
        \<lparr>msl_filename = ''keys.log'', msl_f = None,
         msl_effects = [Acquire, Makedirs [], Release]\<rparr>)
   \<and> logger_call sample_python sample_ssl
        \<lparr>msl_filename = ''keys.log'', msl_f = None,
         msl_effects = [Acquire, Makedirs [], Release]\<rparr> sample_connection 0x20 1
     = (Some (OSError (''[Errno 2] No such file or directory: '' @ [CHR 0x27, CHR 0x27])),
        \<lparr>msl_filename = ''keys.log'', msl_f = None,
         msl_effects = [Acquire, Makedirs [], Release, Acquire, Makedirs [], Release]\<rparr>)"
  by (simp add: logger_eval)

end
